theory Spec2Isabelle
  imports Main "HOL-Library.Sublist"
begin

section \<open>JavaScript values\<close>

text \<open>
  The command receives option values from the command line parser and from the
  configuration file, and tests them with \<^verbatim>\<open>typeof\<close>. A value is therefore one of
  the JavaScript kinds below (neither source hands out a function, a symbol or a big
  integer); numbers are integers here, since no arithmetic is done on them anywhere in
  this code.
\<close>

datatype jsval =
    JUndefined
  | JNull
  | JBool bool
  | JNum int
  | JStr string
  | JObj "(string \<times> jsval) list"

fun typeof :: "jsval \<Rightarrow> string" where
  "typeof JUndefined = ''undefined''"
| "typeof JNull = ''object''"
| "typeof (JBool b) = ''boolean''"
| "typeof (JNum n) = ''number''"
| "typeof (JStr s) = ''string''"
| "typeof (JObj kvs) = ''object''"

section \<open>The vendor's build interfaces\<close>

text \<open>
  The interfaces of \<^verbatim>\<open>azure-devops-node-api/interfaces/BuildInterfaces\<close> that
  \<^verbatim>\<open>src/lib/pipelines/pipelines.ts\<close> populates. Every member of a vendor interface is
  optional, so every field is an option; only the members this code reads or writes are
  kept. Field names that several interfaces share (\<^verbatim>\<open>id\<close>, \<^verbatim>\<open>name\<close>, \<^verbatim>\<open>type\<close>,
  \<^verbatim>\<open>url\<close>) carry the interface as a prefix.
\<close>

datatype DefinitionTriggerType =
    TriggerNone
  | ContinuousIntegration
  | BatchedContinuousIntegration
  | Schedule
  | GatedCheckIn
  | BatchedGatedCheckIn
  | PullRequest
  | BuildCompletion
  | TriggerAll

datatype DefinitionQueueStatus = Enabled | Paused | Disabled

datatype DefinitionType = Xaml | Build

datatype DefinitionQuality = Definition | Draft

datatype RepositoryTypes = Github | Azure

fun RepositoryTypes_value :: "RepositoryTypes \<Rightarrow> string" where
  "RepositoryTypes_value Github = ''github''"
| "RepositoryTypes_value Azure = ''tfsgit''"

record BuildDefinitionVariable =
  allowOverride :: "bool option"
  isSecret :: "bool option"
  var_value :: "string option"

record ContinuousIntegrationTrigger =
  batchChanges :: "bool option"
  trigger_branchFilters :: "string list option"
  maxConcurrentBuildsPerBranch :: "int option"
  settingsSourceType :: "int option"
  triggerType :: "DefinitionTriggerType option"

record TaskAgentPoolReference =
  pool_id :: "int option"
  pool_name :: "string option"

record AgentPoolQueue =
  queue_name :: "string option"
  queue_pool :: "TaskAgentPoolReference option"

record BuildRepository =
  defaultBranch :: "string option"
  repo_id :: "string option"
  repo_name :: "string option"
  repo_properties :: "(string \<times> string) list option"
  repo_type :: "string option"
  repo_url :: "string option"

record YamlProcess =
  yamlFilename :: "string option"

record BuildDefinition =
  badgeEnabled :: "bool option"
  triggers :: "ContinuousIntegrationTrigger list option"
  queue :: "AgentPoolQueue option"
  queueStatus :: "DefinitionQueueStatus option"
  bd_name :: "string option"
  bd_type :: "DefinitionType option"
  quality :: "DefinitionQuality option"
  repository :: "BuildRepository option"
  process :: "YamlProcess option"
  bd_variables :: "(string \<times> BuildDefinitionVariable) list option"
  bd_id :: "int option"

record DefinitionReference =
  ref_id :: "int option"

record Build =
  build_definition :: "DefinitionReference option"

section \<open>Building the definition payload\<close>

definition hostedUbuntuPool :: string where
  "hostedUbuntuPool = ''Hosted Ubuntu 1604''"

definition hostedUbuntuPoolId :: int where
  "hostedUbuntuPoolId = 224"

text \<open>
  \<^verbatim>\<open>interface IPipeline\<close>. The optional \<^verbatim>\<open>variables\<close> dictionary, when it is there, is an
  object, which JavaScript counts as true even when it has no key.
\<close>

record IPipeline =
  pipelineName :: string
  repositoryUrl :: string
  repositoryName :: string
  yamlFileBranch :: string
  yamlFilePath :: string
  branchFilters :: "string list"
  maximumConcurrentBuilds :: int
  variables :: "(string \<times> BuildDefinitionVariable) list option"

text \<open>The object literal \<^verbatim>\<open>{}\<close>: a definition with no member set.\<close>

definition emptyBuildDefinition :: BuildDefinition where
  "emptyBuildDefinition =
     \<lparr> badgeEnabled = None, triggers = None, queue = None, queueStatus = None,
       bd_name = None, bd_type = None, quality = None, repository = None,
       process = None, bd_variables = None, bd_id = None \<rparr>"

text \<open>
  \<^verbatim>\<open>definitionForAzureRepoPipeline\<close>: one record update for each assignment of the
  source, in the source's order.
\<close>

definition definitionForAzureRepoPipeline :: "IPipeline \<Rightarrow> BuildDefinition" where
  "definitionForAzureRepoPipeline pipelineConfig =
     (let d0 = emptyBuildDefinition;
          d1 = d0\<lparr>badgeEnabled := Some True\<rparr>;
          d2 = d1\<lparr>triggers := Some
                 [\<lparr> batchChanges = Some False,
                    trigger_branchFilters = Some (branchFilters pipelineConfig),
                    maxConcurrentBuildsPerBranch = Some (maximumConcurrentBuilds pipelineConfig),
                    settingsSourceType = Some 2,
                    triggerType = Some ContinuousIntegration \<rparr>]\<rparr>;
          d3 = d2\<lparr>queue := Some
                 \<lparr> queue_name = Some hostedUbuntuPool,
                   queue_pool = Some \<lparr> pool_id = Some hostedUbuntuPoolId,
                                       pool_name = Some hostedUbuntuPool \<rparr> \<rparr>\<rparr>;
          d4 = d3\<lparr>queueStatus := Some Enabled\<rparr>;
          d5 = d4\<lparr>bd_name := Some (pipelineName pipelineConfig)\<rparr>;
          d6 = d5\<lparr>bd_type := Some Build\<rparr>;
          d7 = d6\<lparr>quality := Some Definition\<rparr>;
          d8 = d7\<lparr>repository := Some
                 \<lparr> defaultBranch = Some (yamlFileBranch pipelineConfig),
                   repo_id = Some (repositoryName pipelineConfig),
                   repo_name = Some (repositoryName pipelineConfig),
                   repo_properties = None,
                   repo_type = Some (RepositoryTypes_value Azure),
                   repo_url = Some (repositoryUrl pipelineConfig) \<rparr>\<rparr>;
          d9 = d8\<lparr>process := Some \<lparr> yamlFilename = Some (yamlFilePath pipelineConfig) \<rparr>\<rparr>
      in case variables pipelineConfig of
           Some vs \<Rightarrow> d9\<lparr>bd_variables := Some vs\<rparr>
         | None \<Rightarrow> d9)"

section \<open>Effects: the event trace and the outcome of a run\<close>

text \<open>
  Log messages are template literals. A message is kept as its parts (the literal text,
  the interpolated values, and the definitions passed through \<^verbatim>\<open>JSON.stringify\<close>), so
  that no string conversion of the interpolated values has to be assumed.
\<close>

datatype part = Lit string | Val jsval | Json BuildDefinition

text \<open>The character \<^verbatim>\<open>'\<close>, for the messages that end or begin with it.\<close>

definition apostrophe :: string where
  "apostrophe = [CHR 0x27]"

datatype jserror = JsError "part list"

datatype level = Debug | Info | Err

datatype logged = Message "part list" | Thrown jserror

text \<open>
  Everything a run does to the outside world, in the order in which it happens: the calls
  to the logger, to the vendor SDK (the token handler, the \<^verbatim>\<open>WebApi\<close> constructor,
  \<^verbatim>\<open>getBuildApi\<close>, \<^verbatim>\<open>createDefinition\<close>, \<^verbatim>\<open>queueBuild\<close>) and to the exit function.
  The type variables are the vendor's authentication handler, connection and build client.
\<close>

datatype ('h, 'w, 'c) event =
    Log level logged
  | CallTokenHandler string
  | CallWebApi string 'h
  | CallGetBuildApi 'w
  | CallCreateDefinition 'c BuildDefinition string
  | CallQueueBuild 'c Build string
  | CallExit int

text \<open>
  How a function ends: it returns, it throws (an \<^verbatim>\<open>async\<close> function rejects), or
  the process is gone.
\<close>

datatype 'a outcome = Returned 'a | Threw jserror | Exited int

text \<open>\<^verbatim>\<open>process.exit\<close> never returns to its caller.\<close>

definition process_exit :: "int \<Rightarrow> unit outcome" where
  "process_exit status = Exited status"

section \<open>The world outside the two source files\<close>

text \<open>The \<^verbatim>\<open>azure_devops\<close> section of the configuration, which may be missing.\<close>

record azure_devops_config =
  org :: jsval
  access_token :: jsval
  project :: jsval

record config =
  azure_devops :: "azure_devops_config option"

text \<open>
  What the code calls and does not define: the vendor SDK, Node's \<^verbatim>\<open>path.join\<close>, and
  the functions of this repository's \<^verbatim>\<open>lib/azdoutil\<close>, \<^verbatim>\<open>lib/gitutils\<close> and
  \<^verbatim>\<open>config\<close>, which are parameters here. A call that can throw or reject answers
  \<open>Inl\<close>. The vendor's \<^verbatim>\<open>createDefinition\<close> can resolve \<^verbatim>\<open>null\<close> (the source says so
  in a comment), which is \<open>None\<close>.
\<close>

record ('h, 'w, 'c) env =
  getPersonalAccessTokenHandler :: "string \<Rightarrow> jserror + 'h"
  WebApi :: "string \<Rightarrow> 'h \<Rightarrow> jserror + 'w"
  getBuildApi :: "'w \<Rightarrow> jserror + 'c"
  createDefinition :: "'c \<Rightarrow> BuildDefinition \<Rightarrow> string \<Rightarrow> jserror + BuildDefinition option"
  api_queueBuild :: "'c \<Rightarrow> Build \<Rightarrow> string \<Rightarrow> jserror + Build"
  azdoUrl :: "string \<Rightarrow> string"
  path_join :: "string list \<Rightarrow> string"
  getOriginUrl :: "jserror + string"
  getRepositoryName :: "string \<Rightarrow> jserror + jsval"
  getRepositoryUrl :: "string \<Rightarrow> jserror + jsval"
  Config :: "jserror + config"

type_synonym ('h, 'w, 'c, 'a) run = "('h, 'w, 'c) event list \<times> (jserror + 'a)"

section \<open>\<^verbatim>\<open>src/lib/pipelines/pipelines.ts\<close>: the calls to the vendor\<close>

definition initBuildApiClient ::
  "('h, 'w, 'c) env \<Rightarrow> (string \<Rightarrow> jserror + 'h) \<Rightarrow> (string \<Rightarrow> 'h \<Rightarrow> jserror + 'w) \<Rightarrow>
   string \<Rightarrow> string \<Rightarrow> ('h, 'w, 'c, 'c) run" where
  "initBuildApiClient e tokenHandler webapi orgName token =
     (case tokenHandler token of
        Inl err \<Rightarrow> ([CallTokenHandler token], Inl err)
      | Inr authHandler \<Rightarrow>
          (let orgUrl = azdoUrl e orgName in
           case webapi orgUrl authHandler of
             Inl err \<Rightarrow> ([CallTokenHandler token, CallWebApi orgUrl authHandler], Inl err)
           | Inr connection \<Rightarrow>
               ([CallTokenHandler token, CallWebApi orgUrl authHandler,
                 CallGetBuildApi connection],
                getBuildApi e connection)))"

definition getBuildApiClient ::
  "('h, 'w, 'c) env \<Rightarrow> string \<Rightarrow> string \<Rightarrow> ('h, 'w, 'c, 'c) run" where
  "getBuildApiClient e orgName personalAccessToken =
     initBuildApiClient e (getPersonalAccessTokenHandler e) (WebApi e) orgName
       personalAccessToken"

definition createPipelineForDefinition ::
  "('h, 'w, 'c) env \<Rightarrow> 'c \<Rightarrow> string \<Rightarrow> BuildDefinition \<Rightarrow> ('h, 'w, 'c, BuildDefinition) run"
  where
  "createPipelineForDefinition e buildApi azdoProject definition =
     (let t = [Log Info (Message [Lit ''Creating pipeline for definition'']),
               Log Debug (Message [Lit ''Creating BuildDefinition based on '', Json definition]),
               CallCreateDefinition buildApi definition azdoProject]
      in case createDefinition e buildApi definition azdoProject of
           Inl err \<Rightarrow>
             (t @ [Log Err (Thrown err)], Inl (JsError [Lit ''Error creating definition'']))
         | Inr None \<Rightarrow>
             (t @ [Log Err (Thrown (JsError
                     [Lit ''Error creating BuildDefinition; buildApi.createDefinition() returned an invalid value of '',
                      Val JNull]))],
              Inl (JsError [Lit ''Error creating definition'']))
         | Inr (Some createdDefn) \<Rightarrow> (t, Inr createdDefn))"

definition queueBuild ::
  "('h, 'w, 'c) env \<Rightarrow> 'c \<Rightarrow> string \<Rightarrow> int \<Rightarrow> ('h, 'w, 'c, Build) run" where
  "queueBuild e buildApi azdoProject definitionId =
     (let buildReference = \<lparr> build_definition = Some \<lparr> ref_id = Some definitionId \<rparr> \<rparr>;
          t = [CallQueueBuild buildApi buildReference azdoProject]
      in case api_queueBuild e buildApi buildReference azdoProject of
           Inl err \<Rightarrow> (t @ [Log Err (Thrown err)], Inl (JsError [Lit ''Error queueing build'']))
         | Inr build \<Rightarrow> (t, Inr build))"

section \<open>The command file: \<^verbatim>\<open>installPipeline\<close>\<close>

text \<open>
  The configuration literal that \<^verbatim>\<open>installPipeline\<close> hands to the payload builder. The
  conditional on \<^verbatim>\<open>packagesDir\<close> is JavaScript's truth test: \<^verbatim>\<open>undefined\<close> and the
  empty string both take the second branch.
\<close>

definition installPipeline_config ::
  "('h, 'w, 'c) env \<Rightarrow> string \<Rightarrow> string \<Rightarrow> string \<Rightarrow> string \<Rightarrow> string option \<Rightarrow> IPipeline"
  where
  "installPipeline_config e serviceName pipelineName' repositoryName' repositoryUrl' packagesDir =
     \<lparr> pipelineName = pipelineName',
       repositoryUrl = repositoryUrl',
       repositoryName = repositoryName',
       yamlFileBranch = ''master'',
       yamlFilePath =
         (case packagesDir of
            None \<Rightarrow> ''azure-pipelines.yaml''
          | Some dir \<Rightarrow>
              if dir \<noteq> [] then path_join e [dir, serviceName, ''azure-pipelines.yaml'']
              else ''azure-pipelines.yaml''),
       branchFilters = [''master''],
       maximumConcurrentBuilds = 1,
       variables = None \<rparr>"

definition installPipeline ::
  "('h, 'w, 'c) env \<Rightarrow> string \<Rightarrow> string \<Rightarrow> string \<Rightarrow> string \<Rightarrow> string \<Rightarrow> string \<Rightarrow> string \<Rightarrow>
   string option \<Rightarrow> (int \<Rightarrow> unit outcome) \<Rightarrow> ('h, 'w, 'c) event list \<times> unit outcome" where
  "installPipeline e serviceName orgName personalAccessToken pipelineName' repositoryName'
       repositoryUrl' project' packagesDir exitFn =
     (case getBuildApiClient e orgName personalAccessToken of
        (t1, Inl err) \<Rightarrow> (t1 @ [Log Err (Thrown err), CallExit 1], exitFn 1)
      | (t1, Inr devopsClient) \<Rightarrow>
          (let definition = definitionForAzureRepoPipeline
                 (installPipeline_config e serviceName pipelineName' repositoryName'
                    repositoryUrl' packagesDir);
               t2 = t1 @ [Log Info (Message [Lit ''Fetched DevOps Client'']),
                          Log Debug (Message [Lit (''Creating pipeline for project '' @ apostrophe),
                            Val (JStr project'),
                            Lit (apostrophe @ '' with definition '' @ apostrophe),
                            Json definition, Lit apostrophe])]
           in case createPipelineForDefinition e devopsClient project' definition of
                (t3, Inl err) \<Rightarrow>
                  (t2 @ t3 @
                     [Log Err (Message [Lit ''Error occurred during pipeline creation for '',
                                        Val (JStr pipelineName')]),
                      Log Err (Thrown err), CallExit 1],
                   exitFn 1)
              | (t3, Inr builtDefinition) \<Rightarrow>
                  (case bd_id builtDefinition of
                     None \<Rightarrow>
                       (t2 @ t3,
                        Threw (JsError
                          [Lit ''Invalid BuildDefinition created, parameter 'id' is missing from '',
                           Json builtDefinition]))
                   | Some definitionId \<Rightarrow>
                       (let t4 = t2 @ t3 @
                              [Log Info (Message [Lit ''Created pipeline for '',
                                                  Val (JStr pipelineName')]),
                               Log Info (Message [Lit ''Pipeline ID: '',
                                                  Val (JNum definitionId)])]
                        in case queueBuild e devopsClient project' definitionId of
                             (t5, Inl err) \<Rightarrow>
                               (t4 @ t5 @
                                  [Log Err (Message [Lit ''Error occurred when queueing build for '',
                                                     Val (JStr pipelineName')]),
                                   Log Err (Thrown err), CallExit 1],
                                exitFn 1)
                           | (t5, Inr build) \<Rightarrow> (t4 @ t5, Returned ())))))"

section \<open>The command file: the action of \<^verbatim>\<open>create-pipeline\<close>\<close>

text \<open>
  The options object of the command line parser. Six options are tested with
  \<^verbatim>\<open>typeof\<close> before use, so they are arbitrary values; an option that was not given
  is \<^verbatim>\<open>undefined\<close>. \<^verbatim>\<open>--packages-dir\<close> is passed on untested: the parser gives a
  string, or nothing.
\<close>

record opts =
  opt_orgName :: jsval
  opt_personalAccessToken :: jsval
  opt_devopsProject :: jsval
  opt_pipelineName :: jsval
  opt_packagesDir :: "string option"
  opt_repoName :: jsval
  opt_repoUrl :: jsval

text \<open>The seven constants bound by the destructuring of \<^verbatim>\<open>opts\<close>.\<close>

record resolved =
  r_orgName :: jsval
  r_personalAccessToken :: jsval
  r_devopsProject :: jsval
  r_pipelineName :: jsval
  r_packagesDir :: "string option"
  r_repoName :: jsval
  r_repoUrl :: jsval

text \<open>\<^verbatim>\<open>azure_devops && azure_devops.member\<close>.\<close>

definition azure_devops_member ::
  "config \<Rightarrow> (azure_devops_config \<Rightarrow> jsval) \<Rightarrow> jsval" where
  "azure_devops_member cfg member =
     (case azure_devops cfg of None \<Rightarrow> JUndefined | Some a \<Rightarrow> member a)"

text \<open>
  The destructuring with its defaults. A default is used, and evaluated, only when the
  option is \<^verbatim>\<open>undefined\<close>; the defaults are evaluated in the order of the pattern, and
  the two calls into \<^verbatim>\<open>gitutils\<close> can throw.
\<close>

definition resolveOptions ::
  "('h, 'w, 'c) env \<Rightarrow> config \<Rightarrow> string \<Rightarrow> string \<Rightarrow> opts \<Rightarrow> jserror + resolved" where
  "resolveOptions e cfg gitOriginUrl serviceName options =
     (let orgName = (if opt_orgName options = JUndefined then azure_devops_member cfg org
                     else opt_orgName options);
          personalAccessToken =
            (if opt_personalAccessToken options = JUndefined
             then azure_devops_member cfg access_token
             else opt_personalAccessToken options);
          devopsProject =
            (if opt_devopsProject options = JUndefined then azure_devops_member cfg project
             else opt_devopsProject options);
          pipelineName' =
            (if opt_pipelineName options = JUndefined then JStr (serviceName @ ''-pipeline'')
             else opt_pipelineName options);
          packagesDir = opt_packagesDir options
      in case (if opt_repoName options = JUndefined then getRepositoryName e gitOriginUrl
               else Inr (opt_repoName options)) of
           Inl err \<Rightarrow> Inl err
         | Inr repoName \<Rightarrow>
             (case (if opt_repoUrl options = JUndefined then getRepositoryUrl e gitOriginUrl
                    else Inr (opt_repoUrl options)) of
                Inl err \<Rightarrow> Inl err
              | Inr repoUrl \<Rightarrow>
                  Inr \<lparr> r_orgName = orgName, r_personalAccessToken = personalAccessToken,
                        r_devopsProject = devopsProject, r_pipelineName = pipelineName',
                        r_packagesDir = packagesDir, r_repoName = repoName,
                        r_repoUrl = repoUrl \<rparr>))"

text \<open>One \<^verbatim>\<open>typeof\<close> test of the validation block, with the error it throws.\<close>

fun requireString :: "string \<Rightarrow> jsval \<Rightarrow> jserror + string" where
  "requireString flag (JStr s) = Inr s"
| "requireString flag v =
     Inl (JsError [Lit (flag @ '' must be of type 'string', ''), Lit (typeof v),
                   Lit '' given.''])"

text \<open>The six values once they are known to be strings.\<close>

record validated =
  v_pipelineName :: string
  v_personalAccessToken :: string
  v_orgName :: string
  v_repoName :: string
  v_repoUrl :: string
  v_devopsProject :: string

text \<open>
  The body of the first \<^verbatim>\<open>try\<close>: the six tests in the source's order, the first
  failure throwing. The message for the organisation name says \<^verbatim>\<open>--org-url\<close> in the
  source.
\<close>

definition validateInputs :: "resolved \<Rightarrow> jserror + validated" where
  "validateInputs r =
     (case requireString ''--pipeline-name'' (r_pipelineName r) of
        Inl err \<Rightarrow> Inl err
      | Inr pipelineName' \<Rightarrow>
     (case requireString ''--personal-access-token'' (r_personalAccessToken r) of
        Inl err \<Rightarrow> Inl err
      | Inr personalAccessToken \<Rightarrow>
     (case requireString ''--org-url'' (r_orgName r) of
        Inl err \<Rightarrow> Inl err
      | Inr orgName \<Rightarrow>
     (case requireString ''--repo-name'' (r_repoName r) of
        Inl err \<Rightarrow> Inl err
      | Inr repoName \<Rightarrow>
     (case requireString ''--repo-url'' (r_repoUrl r) of
        Inl err \<Rightarrow> Inl err
      | Inr repoUrl \<Rightarrow>
     (case requireString ''--devops-project'' (r_devopsProject r) of
        Inl err \<Rightarrow> Inl err
      | Inr devopsProject \<Rightarrow>
          Inr \<lparr> v_pipelineName = pipelineName', v_personalAccessToken = personalAccessToken,
                v_orgName = orgName, v_repoName = repoName, v_repoUrl = repoUrl,
                v_devopsProject = devopsProject \<rparr>))))))"

definition optionalString :: "string option \<Rightarrow> jsval" where
  "optionalString s = (case s of None \<Rightarrow> JUndefined | Some x \<Rightarrow> JStr x)"

definition debugResolved :: "resolved \<Rightarrow> ('h, 'w, 'c) event list" where
  "debugResolved r =
     [Log Debug (Message [Lit ''orgName: '', Val (r_orgName r)]),
      Log Debug (Message [Lit ''personalAccessToken: '', Val (r_personalAccessToken r)]),
      Log Debug (Message [Lit ''devopsProject: '', Val (r_devopsProject r)]),
      Log Debug (Message [Lit ''pipelineName: '', Val (r_pipelineName r)]),
      Log Debug (Message [Lit ''packagesDir: '', Val (optionalString (r_packagesDir r))]),
      Log Debug (Message [Lit ''repoName: '', Val (r_repoName r)]),
      Log Debug (Message [Lit ''repoUrl: '', Val (r_repoUrl r)])]"

text \<open>
  The action of the command. An error thrown before the first \<^verbatim>\<open>try\<close> rejects the
  action; the exit function given to \<^verbatim>\<open>installPipeline\<close> is \<^verbatim>\<open>process.exit\<close>.
\<close>

definition createPipelineAction ::
  "('h, 'w, 'c) env \<Rightarrow> string \<Rightarrow> opts \<Rightarrow> ('h, 'w, 'c) event list \<times> unit outcome" where
  "createPipelineAction e serviceName options =
     (case getOriginUrl e of
        Inl err \<Rightarrow> ([], Threw err)
      | Inr gitOriginUrl \<Rightarrow>
     (case Config e of
        Inl err \<Rightarrow> ([], Threw err)
      | Inr cfg \<Rightarrow>
     (case resolveOptions e cfg gitOriginUrl serviceName options of
        Inl err \<Rightarrow> ([], Threw err)
      | Inr r \<Rightarrow>
     (case validateInputs r of
        Inl err \<Rightarrow>
          (debugResolved r @
             [Log Err (Message [Lit ''Error occurred validating inputs for '',
                                Val (JStr serviceName)]),
              Log Err (Thrown err), CallExit 1],
           process_exit 1)
      | Inr v \<Rightarrow>
     (case installPipeline e serviceName (v_orgName v) (v_personalAccessToken v)
             (v_pipelineName v) (v_repoName v) (v_repoUrl v) (v_devopsProject v)
             (r_packagesDir r) process_exit of
        (t, Threw err) \<Rightarrow>
          (debugResolved r @ t @
             [Log Err (Message [Lit ''Error occurred installing pipeline for '',
                                Val (JStr serviceName)]),
              Log Err (Thrown err), CallExit 1],
           process_exit 1)
      | (t, out) \<Rightarrow> (debugResolved r @ t, out))))))"

section \<open>Reading a trace\<close>

text \<open>The kinds of call to the vendor, in the order the program is meant to make them.\<close>

datatype call = TokenHandler | NewWebApi | GetBuildApi | CreateDefinition | QueueBuild

fun vendorCall :: "('h, 'w, 'c) event \<Rightarrow> call option" where
  "vendorCall (CallTokenHandler token) = Some TokenHandler"
| "vendorCall (CallWebApi orgUrl authHandler) = Some NewWebApi"
| "vendorCall (CallGetBuildApi connection) = Some GetBuildApi"
| "vendorCall (CallCreateDefinition api d p) = Some CreateDefinition"
| "vendorCall (CallQueueBuild api b p) = Some QueueBuild"
| "vendorCall (Log l m) = None"
| "vendorCall (CallExit status) = None"

definition vendorCalls :: "('h, 'w, 'c) event list \<Rightarrow> call list" where
  "vendorCalls t = List.map_filter vendorCall t"

fun submitted :: "('h, 'w, 'c) event \<Rightarrow> ('c \<times> BuildDefinition \<times> string) option" where
  "submitted (CallCreateDefinition api d p) = Some (api, d, p)"
| "submitted ev = None"

definition definitionsSubmitted ::
  "('h, 'w, 'c) event list \<Rightarrow> ('c \<times> BuildDefinition \<times> string) list" where
  "definitionsSubmitted t = List.map_filter submitted t"

fun queued :: "('h, 'w, 'c) event \<Rightarrow> ('c \<times> Build \<times> string) option" where
  "queued (CallQueueBuild api b p) = Some (api, b, p)"
| "queued ev = None"

definition buildsQueued :: "('h, 'w, 'c) event list \<Rightarrow> ('c \<times> Build \<times> string) list" where
  "buildsQueued t = List.map_filter queued t"

fun exitStatus :: "('h, 'w, 'c) event \<Rightarrow> int option" where
  "exitStatus (CallExit status) = Some status"
| "exitStatus ev = None"

definition exitCalls :: "('h, 'w, 'c) event list \<Rightarrow> int list" where
  "exitCalls t = List.map_filter exitStatus t"

fun errorLogged :: "('h, 'w, 'c) event \<Rightarrow> logged option" where
  "errorLogged (Log Err m) = Some m"
| "errorLogged ev = None"

definition errorsLogged :: "('h, 'w, 'c) event list \<Rightarrow> logged list" where
  "errorsLogged t = List.map_filter errorLogged t"

section \<open>Node's \<^verbatim>\<open>path.posix.join\<close>\<close>

text \<open>
  A model of the library function, for running the program on concrete paths: the
  arguments that are not empty are joined with a slash and the result is normalised.
  Normalising drops the empty and the \<^verbatim>\<open>.\<close> segments, lets a \<^verbatim>\<open>..\<close> segment remove
  the segment before it (or stay, on a relative path with nothing left to remove), and
  keeps a leading and a trailing slash.
\<close>

fun splitSlash :: "string \<Rightarrow> string list" where
  "splitSlash [] = [[]]"
| "splitSlash (c # cs) =
     (if c = CHR ''/'' then [] # splitSlash cs
      else (case splitSlash cs of [] \<Rightarrow> [[c]] | s # ss \<Rightarrow> (c # s) # ss))"

fun joinSlash :: "string list \<Rightarrow> string" where
  "joinSlash [] = []"
| "joinSlash [s] = s"
| "joinSlash (s # ss) = s @ ''/'' @ joinSlash ss"

text \<open>The segments kept so far are in reverse order.\<close>

fun normalizeSegments :: "bool \<Rightarrow> string list \<Rightarrow> string list \<Rightarrow> string list" where
  "normalizeSegments allowAboveRoot res [] = rev res"
| "normalizeSegments allowAboveRoot res (s # ss) =
     (if s = [] \<or> s = ''.'' then normalizeSegments allowAboveRoot res ss
      else if s = ''..'' then
        (case res of
           [] \<Rightarrow> normalizeSegments allowAboveRoot (if allowAboveRoot then [''..''] else []) ss
         | r # rs \<Rightarrow>
             if r = ''..''
             then normalizeSegments allowAboveRoot (if allowAboveRoot then ''..'' # res else res) ss
             else normalizeSegments allowAboveRoot rs ss)
      else normalizeSegments allowAboveRoot (s # res) ss)"

definition posix_normalize :: "string \<Rightarrow> string" where
  "posix_normalize path =
     (if path = [] then ''.''
      else
        (let isAbsolute = (hd path = CHR ''/'');
             trailingSeparator = (last path = CHR ''/'');
             p = joinSlash (normalizeSegments (\<not> isAbsolute) [] (splitSlash path))
         in if p = [] then (if isAbsolute then ''/'' else if trailingSeparator then ''./'' else ''.'')
            else (if isAbsolute then ''/'' else []) @ p @ (if trailingSeparator then ''/'' else [])))"

definition posix_join :: "string list \<Rightarrow> string" where
  "posix_join args =
     (let joined = joinSlash (filter (\<lambda>arg. arg \<noteq> []) args)
      in if joined = [] then ''.'' else posix_normalize joined)"


section \<open>Concrete worlds, for running the program\<close>

text \<open>
  A world in which every call succeeds: the vendor hands out client number 7 and answers
  \<^verbatim>\<open>createDefinition\<close> with the submitted definition under the id 0, paths are joined as
  on a POSIX system, and there is no \<^verbatim>\<open>azure_devops\<close> section in the configuration. The
  other worlds differ from it in one call that fails, or in a created definition that
  comes back without an id.
\<close>

definition okEnv :: "(string, string \<times> string, nat) env" where
  "okEnv =
     \<lparr> getPersonalAccessTokenHandler = (\<lambda>token. Inr token),
       WebApi = (\<lambda>orgUrl authHandler. Inr (orgUrl, authHandler)),
       getBuildApi = (\<lambda>connection. Inr 7),
       createDefinition = (\<lambda>api d p. Inr (Some (d\<lparr>bd_id := Some 0\<rparr>))),
       api_queueBuild = (\<lambda>api b p. Inr b),
       azdoUrl = (\<lambda>orgName. ''https://dev.azure.com/'' @ orgName),
       path_join = posix_join,
       getOriginUrl = Inr ''https://dev.azure.com/org/proj/_git/repo'',
       getRepositoryName = (\<lambda>originUrl. Inr (JStr ''repo'')),
       getRepositoryUrl = (\<lambda>originUrl. Inr (JStr originUrl)),
       Config = Inr \<lparr> azure_devops = None \<rparr> \<rparr>"

definition failure :: "string \<Rightarrow> jserror" where
  "failure what = JsError [Lit what]"

definition noClientEnv :: "(string, string \<times> string, nat) env" where
  "noClientEnv = okEnv\<lparr>getBuildApi := (\<lambda>connection. Inl (failure ''unauthorized''))\<rparr>"

definition noDefinitionEnv :: "(string, string \<times> string, nat) env" where
  "noDefinitionEnv = okEnv\<lparr>createDefinition := (\<lambda>api d p. Inl (failure ''rejected''))\<rparr>"

definition noIdEnv :: "(string, string \<times> string, nat) env" where
  "noIdEnv = okEnv\<lparr>createDefinition := (\<lambda>api d p. Inr (Some d))\<rparr>"

definition noQueueEnv :: "(string, string \<times> string, nat) env" where
  "noQueueEnv = okEnv\<lparr>api_queueBuild := (\<lambda>api b p. Inl (failure ''no agents''))\<rparr>"

text \<open>The configuration \<^verbatim>\<open>installPipeline\<close> builds for a service outside a mono-repository.\<close>

definition demoConfig :: IPipeline where
  "demoConfig = installPipeline_config okEnv ''svc'' ''svc-pipeline'' ''repo'' ''url'' None"

text \<open>
  A command line that gives the organisation, the token and the project and leaves the
  rest to the defaults, with what it resolves to and what the validation returns.
\<close>

definition fullOptions :: opts where
  "fullOptions =
     \<lparr> opt_orgName = JStr ''org'', opt_personalAccessToken = JStr ''pat'',
       opt_devopsProject = JStr ''proj'', opt_pipelineName = JUndefined,
       opt_packagesDir = None, opt_repoName = JUndefined, opt_repoUrl = JUndefined \<rparr>"

definition fullResolved :: resolved where
  "fullResolved =
     \<lparr> r_orgName = JStr ''org'', r_personalAccessToken = JStr ''pat'',
       r_devopsProject = JStr ''proj'', r_pipelineName = JStr ''svc-pipeline'',
       r_packagesDir = None, r_repoName = JStr ''repo'',
       r_repoUrl = JStr ''https://dev.azure.com/org/proj/_git/repo'' \<rparr>"

definition fullValidated :: validated where
  "fullValidated =
     \<lparr> v_pipelineName = ''svc-pipeline'', v_personalAccessToken = ''pat'',
       v_orgName = ''org'', v_repoName = ''repo'',
       v_repoUrl = ''https://dev.azure.com/org/proj/_git/repo'',
       v_devopsProject = ''proj'' \<rparr>"

text \<open>The same command line without the token, which the configuration does not give either.\<close>

definition tokenlessOptions :: opts where
  "tokenlessOptions = fullOptions\<lparr>opt_personalAccessToken := JUndefined\<rparr>"

definition tokenlessResolved :: resolved where
  "tokenlessResolved = fullResolved\<lparr>r_personalAccessToken := JUndefined\<rparr>"


section \<open>Facts about traces\<close>

lemma map_filter_append:
  "List.map_filter f (xs @ ys) = List.map_filter f xs @ List.map_filter f ys"
  by (simp add: List.map_filter_def)

lemma vendorCalls_append: "vendorCalls (s @ t) = vendorCalls s @ vendorCalls t"
  by (simp add: vendorCalls_def map_filter_append)

lemma definitionsSubmitted_append:
  "definitionsSubmitted (s @ t) = definitionsSubmitted s @ definitionsSubmitted t"
  by (simp add: definitionsSubmitted_def map_filter_append)

lemma buildsQueued_append: "buildsQueued (s @ t) = buildsQueued s @ buildsQueued t"
  by (simp add: buildsQueued_def map_filter_append)

lemma exitCalls_append: "exitCalls (s @ t) = exitCalls s @ exitCalls t"
  by (simp add: exitCalls_def map_filter_append)

lemma errorsLogged_append: "errorsLogged (s @ t) = errorsLogged s @ errorsLogged t"
  by (simp add: errorsLogged_def map_filter_append)

lemmas read_append =
  vendorCalls_append definitionsSubmitted_append buildsQueued_append exitCalls_append
  errorsLogged_append

lemma read_Nil:
  "vendorCalls [] = []" "definitionsSubmitted [] = []" "buildsQueued [] = []"
  "exitCalls [] = []" "errorsLogged [] = []"
  by (simp_all add: vendorCalls_def definitionsSubmitted_def buildsQueued_def exitCalls_def
        errorsLogged_def)

lemma read_Cons:
  "vendorCalls (ev # t) =
     (case vendorCall ev of None \<Rightarrow> vendorCalls t | Some c \<Rightarrow> c # vendorCalls t)"
  "definitionsSubmitted (ev # t) =
     (case submitted ev of None \<Rightarrow> definitionsSubmitted t
      | Some d \<Rightarrow> d # definitionsSubmitted t)"
  "buildsQueued (ev # t) =
     (case queued ev of None \<Rightarrow> buildsQueued t | Some b \<Rightarrow> b # buildsQueued t)"
  "exitCalls (ev # t) =
     (case exitStatus ev of None \<Rightarrow> exitCalls t | Some n \<Rightarrow> n # exitCalls t)"
  "errorsLogged (ev # t) =
     (case errorLogged ev of None \<Rightarrow> errorsLogged t | Some m \<Rightarrow> m # errorsLogged t)"
  unfolding vendorCalls_def definitionsSubmitted_def buildsQueued_def exitCalls_def
    errorsLogged_def
  by simp_all

lemmas read_defs = read_Nil read_Cons

section \<open>What each function leaves in the trace\<close>

lemma getBuildApiClient_ok:
  assumes "getBuildApiClient e orgName token = (t, Inr api)"
  shows "vendorCalls t = [TokenHandler, NewWebApi, GetBuildApi]"
    and "definitionsSubmitted t = []" and "buildsQueued t = []"
    and "exitCalls t = []" and "errorsLogged t = []"
  using assms
  by (auto simp: getBuildApiClient_def initBuildApiClient_def Let_def read_defs
           split: sum.splits)

lemma getBuildApiClient_failed:
  assumes "getBuildApiClient e orgName token = (t, Inl err)"
  shows "prefix (vendorCalls t) [TokenHandler, NewWebApi, GetBuildApi]"
    and "definitionsSubmitted t = []" and "buildsQueued t = []"
    and "exitCalls t = []" and "errorsLogged t = []"
  using assms
  by (auto simp: getBuildApiClient_def initBuildApiClient_def Let_def read_defs
           split: sum.splits)

lemma createPipelineForDefinition_trace:
  "vendorCalls (fst (createPipelineForDefinition e api p d)) = [CreateDefinition]"
  "definitionsSubmitted (fst (createPipelineForDefinition e api p d)) = [(api, d, p)]"
  "buildsQueued (fst (createPipelineForDefinition e api p d)) = []"
  "exitCalls (fst (createPipelineForDefinition e api p d)) = []"
  by (auto simp: createPipelineForDefinition_def Let_def read_defs
           split: sum.splits option.splits)

lemma createPipelineForDefinition_failed:
  assumes "createDefinition e api d p = Inl err"
  shows "\<exists>t. createPipelineForDefinition e api p d =
           (t, Inl (JsError [Lit ''Error creating definition''])) \<and>
           errorsLogged t = [Thrown err]"
  using assms by (simp add: createPipelineForDefinition_def Let_def read_defs)

lemma queueBuild_trace:
  "vendorCalls (fst (queueBuild e api p i)) = [QueueBuild]"
  "definitionsSubmitted (fst (queueBuild e api p i)) = []"
  "buildsQueued (fst (queueBuild e api p i)) =
     [(api, \<lparr> build_definition = Some \<lparr> ref_id = Some i \<rparr> \<rparr>, p)]"
  "exitCalls (fst (queueBuild e api p i)) = []"
  by (auto simp: queueBuild_def Let_def read_defs split: sum.splits)

lemma queueBuild_failed:
  assumes "api_queueBuild e api \<lparr> build_definition = Some \<lparr> ref_id = Some i \<rparr> \<rparr> p = Inl err"
  shows "\<exists>t. queueBuild e api p i = (t, Inl (JsError [Lit ''Error queueing build''])) \<and>
           errorsLogged t = [Thrown err]"
  using assms by (simp add: queueBuild_def Let_def read_defs)

lemma debugResolved_trace:
  "vendorCalls (debugResolved r) = []" "exitCalls (debugResolved r) = []"
  "errorsLogged (debugResolved r) = []"
  by (simp_all add: debugResolved_def read_defs)

section \<open>The four ways a run of \<^verbatim>\<open>installPipeline\<close> can go\<close>

text \<open>No client: the error is logged and the exit function is called.\<close>

lemma installPipeline_no_client:
  assumes g: "getBuildApiClient e orgName token = (t1, Inl err)"
  shows "installPipeline e svc orgName token pn rn ru proj pd exitFn =
           (t1 @ [Log Err (Thrown err), CallExit 1], exitFn 1)"
    and "vendorCalls (fst (installPipeline e svc orgName token pn rn ru proj pd exitFn)) =
           vendorCalls t1"
    and "definitionsSubmitted (fst (installPipeline e svc orgName token pn rn ru proj pd exitFn)) = []"
    and "buildsQueued (fst (installPipeline e svc orgName token pn rn ru proj pd exitFn)) = []"
    and "exitCalls (fst (installPipeline e svc orgName token pn rn ru proj pd exitFn)) = [1]"
    and "errorsLogged (fst (installPipeline e svc orgName token pn rn ru proj pd exitFn)) =
           [Thrown err]"
  using g getBuildApiClient_failed(2-5)[OF g]
  by (simp_all add: installPipeline_def read_append read_defs)

text \<open>A client, and the creation of the definition fails.\<close>

lemma installPipeline_create_failed:
  assumes g: "getBuildApiClient e orgName token = (t1, Inr api)"
      and c: "createPipelineForDefinition e api proj
                (definitionForAzureRepoPipeline (installPipeline_config e svc pn rn ru pd)) =
              (t3, Inl err)"
  shows "vendorCalls (fst (installPipeline e svc orgName token pn rn ru proj pd exitFn)) =
           [TokenHandler, NewWebApi, GetBuildApi, CreateDefinition]"
    and "definitionsSubmitted (fst (installPipeline e svc orgName token pn rn ru proj pd exitFn)) =
           [(api, definitionForAzureRepoPipeline (installPipeline_config e svc pn rn ru pd), proj)]"
    and "buildsQueued (fst (installPipeline e svc orgName token pn rn ru proj pd exitFn)) = []"
    and "exitCalls (fst (installPipeline e svc orgName token pn rn ru proj pd exitFn)) = [1]"
    and "errorsLogged (fst (installPipeline e svc orgName token pn rn ru proj pd exitFn)) =
           errorsLogged t3 @
           [Message [Lit ''Error occurred during pipeline creation for '', Val (JStr pn)],
            Thrown err]"
    and "snd (installPipeline e svc orgName token pn rn ru proj pd exitFn) = exitFn 1"
proof -
  let ?d = "definitionForAzureRepoPipeline (installPipeline_config e svc pn rn ru pd)"
  let ?run = "installPipeline e svc orgName token pn rn ru proj pd exitFn"
  note t1 = getBuildApiClient_ok[OF g]
  have t3: "vendorCalls t3 = [CreateDefinition]" "definitionsSubmitted t3 = [(api, ?d, proj)]"
    "buildsQueued t3 = []" "exitCalls t3 = []"
    using createPipelineForDefinition_trace[of e api proj ?d] c by simp_all
  have run: "?run =
      (t1 @ [Log Info (Message [Lit ''Fetched DevOps Client'']),
             Log Debug (Message [Lit (''Creating pipeline for project '' @ apostrophe),
                            Val (JStr proj),
                            Lit (apostrophe @ '' with definition '' @ apostrophe),
                            Json ?d, Lit apostrophe])] @ t3 @
         [Log Err (Message [Lit ''Error occurred during pipeline creation for '', Val (JStr pn)]),
          Log Err (Thrown err), CallExit 1], exitFn 1)"
    using g c by (simp add: installPipeline_def Let_def)
  show "vendorCalls (fst ?run) = [TokenHandler, NewWebApi, GetBuildApi, CreateDefinition]"
    unfolding run by (simp add: read_append read_defs t1 t3)
  show "definitionsSubmitted (fst ?run) = [(api, ?d, proj)]"
    unfolding run by (simp add: read_append read_defs t1 t3)
  show "buildsQueued (fst ?run) = []"
    unfolding run by (simp add: read_append read_defs t1 t3)
  show "exitCalls (fst ?run) = [1]"
    unfolding run by (simp add: read_append read_defs t1 t3)
  show "errorsLogged (fst ?run) =
           errorsLogged t3 @
           [Message [Lit ''Error occurred during pipeline creation for '', Val (JStr pn)],
            Thrown err]"
    unfolding run by (simp add: read_append read_defs t1 t3)
  show "snd ?run = exitFn 1"
    unfolding run by simp
qed

text \<open>A client and a created definition that has no id.\<close>

lemma installPipeline_no_id:
  assumes g: "getBuildApiClient e orgName token = (t1, Inr api)"
      and c: "createPipelineForDefinition e api proj
                (definitionForAzureRepoPipeline (installPipeline_config e svc pn rn ru pd)) =
              (t3, Inr built)"
      and i: "bd_id built = None"
  shows "vendorCalls (fst (installPipeline e svc orgName token pn rn ru proj pd exitFn)) =
           [TokenHandler, NewWebApi, GetBuildApi, CreateDefinition]"
    and "definitionsSubmitted (fst (installPipeline e svc orgName token pn rn ru proj pd exitFn)) =
           [(api, definitionForAzureRepoPipeline (installPipeline_config e svc pn rn ru pd), proj)]"
    and "buildsQueued (fst (installPipeline e svc orgName token pn rn ru proj pd exitFn)) = []"
    and "exitCalls (fst (installPipeline e svc orgName token pn rn ru proj pd exitFn)) = []"
    and "snd (installPipeline e svc orgName token pn rn ru proj pd exitFn) =
           Threw (JsError
             [Lit ''Invalid BuildDefinition created, parameter 'id' is missing from '',
              Json built])"
proof -
  let ?d = "definitionForAzureRepoPipeline (installPipeline_config e svc pn rn ru pd)"
  let ?run = "installPipeline e svc orgName token pn rn ru proj pd exitFn"
  note t1 = getBuildApiClient_ok[OF g]
  have t3: "vendorCalls t3 = [CreateDefinition]" "definitionsSubmitted t3 = [(api, ?d, proj)]"
    "buildsQueued t3 = []" "exitCalls t3 = []"
    using createPipelineForDefinition_trace[of e api proj ?d] c by simp_all
  have run: "?run =
      (t1 @ [Log Info (Message [Lit ''Fetched DevOps Client'']),
             Log Debug (Message [Lit (''Creating pipeline for project '' @ apostrophe),
                            Val (JStr proj),
                            Lit (apostrophe @ '' with definition '' @ apostrophe),
                            Json ?d, Lit apostrophe])] @ t3,
       Threw (JsError
             [Lit ''Invalid BuildDefinition created, parameter 'id' is missing from '',
              Json built]))"
    using g c i by (simp add: installPipeline_def Let_def)
  show "vendorCalls (fst ?run) = [TokenHandler, NewWebApi, GetBuildApi, CreateDefinition]"
    unfolding run by (simp add: read_append read_defs t1 t3)
  show "definitionsSubmitted (fst ?run) = [(api, ?d, proj)]"
    unfolding run by (simp add: read_append read_defs t1 t3)
  show "buildsQueued (fst ?run) = []"
    unfolding run by (simp add: read_append read_defs t1 t3)
  show "exitCalls (fst ?run) = []"
    unfolding run by (simp add: read_append read_defs t1 t3)
  show "snd ?run =
           Threw (JsError
             [Lit ''Invalid BuildDefinition created, parameter 'id' is missing from '',
              Json built])"
    unfolding run by simp
qed

text \<open>A client and a created definition with an id: the build is queued.\<close>

lemma installPipeline_queued:
  assumes g: "getBuildApiClient e orgName token = (t1, Inr api)"
      and c: "createPipelineForDefinition e api proj
                (definitionForAzureRepoPipeline (installPipeline_config e svc pn rn ru pd)) =
              (t3, Inr built)"
      and i: "bd_id built = Some i"
      and q: "queueBuild e api proj i = (t5, r)"
  shows "vendorCalls (fst (installPipeline e svc orgName token pn rn ru proj pd exitFn)) =
           [TokenHandler, NewWebApi, GetBuildApi, CreateDefinition, QueueBuild]"
    and "definitionsSubmitted (fst (installPipeline e svc orgName token pn rn ru proj pd exitFn)) =
           [(api, definitionForAzureRepoPipeline (installPipeline_config e svc pn rn ru pd), proj)]"
    and "buildsQueued (fst (installPipeline e svc orgName token pn rn ru proj pd exitFn)) =
           [(api, \<lparr> build_definition = Some \<lparr> ref_id = Some i \<rparr> \<rparr>, proj)]"
    and "exitCalls (fst (installPipeline e svc orgName token pn rn ru proj pd exitFn)) =
           (case r of Inl err \<Rightarrow> [1] | Inr build \<Rightarrow> [])"
    and "errorsLogged (fst (installPipeline e svc orgName token pn rn ru proj pd exitFn)) =
           errorsLogged t3 @ errorsLogged t5 @
           (case r of
              Inl err \<Rightarrow>
                [Message [Lit ''Error occurred when queueing build for '', Val (JStr pn)],
                 Thrown err]
            | Inr build \<Rightarrow> [])"
    and "snd (installPipeline e svc orgName token pn rn ru proj pd exitFn) =
           (case r of Inl err \<Rightarrow> exitFn 1 | Inr build \<Rightarrow> Returned ())"
proof -
  let ?d = "definitionForAzureRepoPipeline (installPipeline_config e svc pn rn ru pd)"
  let ?run = "installPipeline e svc orgName token pn rn ru proj pd exitFn"
  let ?tail = "case r of
       Inl err \<Rightarrow>
         [Log Err (Message [Lit ''Error occurred when queueing build for '', Val (JStr pn)]),
          Log Err (Thrown err), CallExit 1]
     | Inr build \<Rightarrow> []"
  note t1 = getBuildApiClient_ok[OF g]
  have t3: "vendorCalls t3 = [CreateDefinition]" "definitionsSubmitted t3 = [(api, ?d, proj)]"
    "buildsQueued t3 = []" "exitCalls t3 = []"
    using createPipelineForDefinition_trace[of e api proj ?d] c by simp_all
  have t5: "vendorCalls t5 = [QueueBuild]" "definitionsSubmitted t5 = []"
    "buildsQueued t5 = [(api, \<lparr> build_definition = Some \<lparr> ref_id = Some i \<rparr> \<rparr>, proj)]"
    "exitCalls t5 = []"
    using queueBuild_trace[of e api proj i] q by simp_all
  have tail: "vendorCalls ?tail = []" "definitionsSubmitted ?tail = []" "buildsQueued ?tail = []"
    "exitCalls ?tail = (case r of Inl err \<Rightarrow> [1] | Inr build \<Rightarrow> [])"
    "errorsLogged ?tail =
       (case r of
          Inl err \<Rightarrow>
            [Message [Lit ''Error occurred when queueing build for '', Val (JStr pn)],
             Thrown err]
        | Inr build \<Rightarrow> [])"
    by (cases r; simp add: read_defs)+
  have run: "?run =
      (t1 @ [Log Info (Message [Lit ''Fetched DevOps Client'']),
             Log Debug (Message [Lit (''Creating pipeline for project '' @ apostrophe),
                            Val (JStr proj),
                            Lit (apostrophe @ '' with definition '' @ apostrophe),
                            Json ?d, Lit apostrophe])] @ t3 @
         [Log Info (Message [Lit ''Created pipeline for '', Val (JStr pn)]),
          Log Info (Message [Lit ''Pipeline ID: '', Val (JNum i)])] @ t5 @ ?tail,
       (case r of Inl err \<Rightarrow> exitFn 1 | Inr build \<Rightarrow> Returned ()))"
    using g c i q by (cases r) (simp_all add: installPipeline_def Let_def)
  show "vendorCalls (fst ?run) =
           [TokenHandler, NewWebApi, GetBuildApi, CreateDefinition, QueueBuild]"
    unfolding run by (simp add: read_append read_defs t1 t3 t5 tail)
  show "definitionsSubmitted (fst ?run) = [(api, ?d, proj)]"
    unfolding run by (simp add: read_append read_defs t1 t3 t5 tail)
  show "buildsQueued (fst ?run) =
           [(api, \<lparr> build_definition = Some \<lparr> ref_id = Some i \<rparr> \<rparr>, proj)]"
    unfolding run by (simp add: read_append read_defs t1 t3 t5 tail)
  show "exitCalls (fst ?run) = (case r of Inl err \<Rightarrow> [1] | Inr build \<Rightarrow> [])"
    unfolding run by (simp add: read_append read_defs t1 t3 t5 tail)
  show "errorsLogged (fst ?run) =
           errorsLogged t3 @ errorsLogged t5 @
           (case r of
              Inl err \<Rightarrow>
                [Message [Lit ''Error occurred when queueing build for '', Val (JStr pn)],
                 Thrown err]
            | Inr build \<Rightarrow> [])"
    unfolding run by (simp add: read_append read_defs t1 t3 t5 tail)
  show "snd ?run = (case r of Inl err \<Rightarrow> exitFn 1 | Inr build \<Rightarrow> Returned ())"
    unfolding run by simp
qed

text \<open>Whenever there is a client, exactly one definition is submitted: the one built.\<close>

lemma installPipeline_submits:
  assumes g: "getBuildApiClient e orgName token = (t1, Inr api)"
  shows "definitionsSubmitted (fst (installPipeline e svc orgName token pn rn ru proj pd exitFn)) =
           [(api, definitionForAzureRepoPipeline (installPipeline_config e svc pn rn ru pd), proj)]"
proof -
  let ?d = "definitionForAzureRepoPipeline (installPipeline_config e svc pn rn ru pd)"
  obtain t3 r3 where c: "createPipelineForDefinition e api proj ?d = (t3, r3)"
    by (cases "createPipelineForDefinition e api proj ?d")
  show ?thesis
  proof (cases r3)
    case (Inl err)
    with g c show ?thesis by (simp add: installPipeline_create_failed(2))
  next
    case (Inr built)
    show ?thesis
    proof (cases "bd_id built")
      case None
      with g c Inr show ?thesis by (simp add: installPipeline_no_id(2))
    next
      case (Some i)
      obtain t5 r5 where q: "queueBuild e api proj i = (t5, r5)"
        by (cases "queueBuild e api proj i")
      from g c Inr Some q show ?thesis by (simp add: installPipeline_queued(2))
    qed
  qed
qed

section \<open>Validation\<close>

lemma requireString_Inr: "requireString flag v = Inr s \<Longrightarrow> typeof v = ''string''"
  by (cases v) simp_all

lemma validateInputs_rejects:
  assumes "typeof (r_pipelineName r) \<noteq> ''string'' \<or>
           typeof (r_personalAccessToken r) \<noteq> ''string'' \<or>
           typeof (r_orgName r) \<noteq> ''string'' \<or>
           typeof (r_repoName r) \<noteq> ''string'' \<or>
           typeof (r_repoUrl r) \<noteq> ''string'' \<or>
           typeof (r_devopsProject r) \<noteq> ''string''"
  shows "\<exists>err. validateInputs r = Inl err"
  using assms
  by (auto simp: validateInputs_def split: sum.splits dest: requireString_Inr)

section \<open>The concrete worlds, evaluated\<close>

lemmas env_defs = okEnv_def noClientEnv_def noDefinitionEnv_def noIdEnv_def noQueueEnv_def
  failure_def

lemma demo_client:
  "snd (getBuildApiClient okEnv ''org'' ''pat'') = Inr 7"
  "snd (getBuildApiClient noDefinitionEnv ''org'' ''pat'') = Inr 7"
  "snd (getBuildApiClient noIdEnv ''org'' ''pat'') = Inr 7"
  "snd (getBuildApiClient noQueueEnv ''org'' ''pat'') = Inr 7"
  "snd (getBuildApiClient noClientEnv ''org'' ''pat'') = Inl (failure ''unauthorized'')"
  by (simp_all add: env_defs getBuildApiClient_def initBuildApiClient_def Let_def)

lemma demoConfig_other:
  "installPipeline_config noDefinitionEnv ''svc'' ''svc-pipeline'' ''repo'' ''url'' None = demoConfig"
  "installPipeline_config noIdEnv ''svc'' ''svc-pipeline'' ''repo'' ''url'' None = demoConfig"
  "installPipeline_config noQueueEnv ''svc'' ''svc-pipeline'' ''repo'' ''url'' None = demoConfig"
  "installPipeline_config noClientEnv ''svc'' ''svc-pipeline'' ''repo'' ''url'' None = demoConfig"
  "installPipeline_config okEnv ''svc'' ''svc-pipeline'' ''repo'' ''url'' None = demoConfig"
  by (simp_all add: demoConfig_def installPipeline_config_def)

lemma demo_created:
  "snd (createPipelineForDefinition okEnv 7 ''proj'' d) = Inr (d\<lparr>bd_id := Some 0\<rparr>)"
  "snd (createPipelineForDefinition noQueueEnv 7 ''proj'' d) = Inr (d\<lparr>bd_id := Some 0\<rparr>)"
  "snd (createPipelineForDefinition noIdEnv 7 ''proj'' d) = Inr d"
  by (simp_all add: env_defs createPipelineForDefinition_def)

lemma demoDefinition_no_id: "bd_id (definitionForAzureRepoPipeline demoConfig) = None"
  by (simp add: definitionForAzureRepoPipeline_def demoConfig_def installPipeline_config_def
        emptyBuildDefinition_def Let_def)

lemma posix_join_packages:
  "posix_join [''packages'', ''svc'', ''azure-pipelines.yaml''] =
     ''packages/svc/azure-pipelines.yaml''"
  by (simp add: posix_join_def posix_normalize_def)

lemma posix_join_empty_dir:
  "posix_join [[], ''svc'', ''azure-pipelines.yaml''] = ''svc/azure-pipelines.yaml''"
  by (simp add: posix_join_def posix_normalize_def)

lemma demo_resolved:
  "resolveOptions okEnv \<lparr> azure_devops = None \<rparr> ''https://dev.azure.com/org/proj/_git/repo''
     ''svc'' fullOptions = Inr fullResolved"
  "resolveOptions okEnv \<lparr> azure_devops = None \<rparr> ''https://dev.azure.com/org/proj/_git/repo''
     ''svc'' tokenlessOptions = Inr tokenlessResolved"
  by (simp_all add: resolveOptions_def okEnv_def fullOptions_def fullResolved_def
        tokenlessOptions_def tokenlessResolved_def azure_devops_member_def)


section \<open>C6 and C10: the payload builder\<close>

text \<open>
  C6. \<^verbatim>\<open>definitionForAzureRepoPipeline\<close> maps every field of the configuration onto the
  vendor's schema: the name is the pipeline name; the repository's id and name are the
  repository name, its url the repository url, its default branch the YAML file's branch;
  the process's YAML file name is the YAML file path; there is exactly one trigger, of the
  continuous-integration type, with the given branch filters and with the maximum of
  concurrent builds as the builds allowed per branch; and there is a queue bound to an
  agent pool.
\<close>

theorem definitionForAzureRepoPipeline_maps_fields:
  "bd_name (definitionForAzureRepoPipeline cfg) = Some (pipelineName cfg) \<and>
   Option.bind (repository (definitionForAzureRepoPipeline cfg)) repo_id =
     Some (repositoryName cfg) \<and>
   Option.bind (repository (definitionForAzureRepoPipeline cfg)) repo_name =
     Some (repositoryName cfg) \<and>
   Option.bind (repository (definitionForAzureRepoPipeline cfg)) repo_url =
     Some (repositoryUrl cfg) \<and>
   Option.bind (repository (definitionForAzureRepoPipeline cfg)) defaultBranch =
     Some (yamlFileBranch cfg) \<and>
   Option.bind (process (definitionForAzureRepoPipeline cfg)) yamlFilename =
     Some (yamlFilePath cfg) \<and>
   (\<exists>trigger. triggers (definitionForAzureRepoPipeline cfg) = Some [trigger] \<and>
      triggerType trigger = Some ContinuousIntegration \<and>
      trigger_branchFilters trigger = Some (branchFilters cfg) \<and>
      maxConcurrentBuildsPerBranch trigger = Some (maximumConcurrentBuilds cfg)) \<and>
   (\<exists>q pool. queue (definitionForAzureRepoPipeline cfg) = Some q \<and> queue_pool q = Some pool)"
  by (cases "variables cfg") (simp_all add: definitionForAzureRepoPipeline_def Let_def)

text \<open>
  C10. Whatever the configuration, the definition built has the badge enabled, the queue
  status \<^verbatim>\<open>Enabled\<close>, the type \<^verbatim>\<open>Build\<close>, the quality \<^verbatim>\<open>Definition\<close>, the repository
  type \<^verbatim>\<open>tfsgit\<close>, and a queue named \<^verbatim>\<open>Hosted Ubuntu 1604\<close> on the pool with id 224; and
  its variables are the configuration's, present exactly when the configuration has them.
\<close>

theorem definitionForAzureRepoPipeline_fixed_values:
  "badgeEnabled (definitionForAzureRepoPipeline cfg) = Some True \<and>
   queueStatus (definitionForAzureRepoPipeline cfg) = Some Enabled \<and>
   bd_type (definitionForAzureRepoPipeline cfg) = Some Build \<and>
   quality (definitionForAzureRepoPipeline cfg) = Some Definition \<and>
   Option.bind (repository (definitionForAzureRepoPipeline cfg)) repo_type = Some ''tfsgit'' \<and>
   Option.bind (queue (definitionForAzureRepoPipeline cfg)) queue_name =
     Some ''Hosted Ubuntu 1604'' \<and>
   Option.bind (Option.bind (queue (definitionForAzureRepoPipeline cfg)) queue_pool) pool_id =
     Some 224 \<and>
   bd_variables (definitionForAzureRepoPipeline cfg) = variables cfg \<and>
   (bd_variables (definitionForAzureRepoPipeline cfg) = None) = (variables cfg = None)"
  by (cases "variables cfg")
     (simp_all add: definitionForAzureRepoPipeline_def Let_def emptyBuildDefinition_def
        hostedUbuntuPool_def hostedUbuntuPoolId_def)

section \<open>C1: the path of the YAML file\<close>

text \<open>
  C1 as it is written asks for \<^verbatim>\<open>path.join(packagesDir, serviceName, "azure-pipelines.yaml")\<close>
  for every defined \<^verbatim>\<open>packagesDir\<close> string. The empty string is a defined string, and
  the program tests \<^verbatim>\<open>packagesDir\<close> for truth: for the service \<^verbatim>\<open>svc\<close> and the empty
  packages directory it passes \<^verbatim>\<open>azure-pipelines.yaml\<close>, while \<^verbatim>\<open>path.join\<close> of the three
  gives \<^verbatim>\<open>svc/azure-pipelines.yaml\<close>.
\<close>

theorem yamlFilePath_empty_packagesDir_counterexample:
  "\<not> (yamlFilePath (installPipeline_config okEnv ''svc'' ''svc-pipeline'' ''repo'' ''url''
          (Some [])) =
      path_join okEnv [[], ''svc'', ''azure-pipelines.yaml''])"
  by (simp add: installPipeline_config_def okEnv_def posix_join_empty_dir)

text \<open>
  C1, amended. For every \<^verbatim>\<open>packagesDir\<close> string that is not empty, the YAML file path
  passed to the definition builder is \<^verbatim>\<open>path.join(packagesDir, serviceName,
  "azure-pipelines.yaml")\<close>; for \<^verbatim>\<open>packagesDir\<close> undefined it is exactly
  \<^verbatim>\<open>azure-pipelines.yaml\<close>. In every run that gets a client, the path computed is the
  YAML file name of the one definition submitted to the vendor.
\<close>

theorem yamlFilePath_computed:
  "(dir \<noteq> [] \<longrightarrow>
      yamlFilePath (installPipeline_config e svc pn rn ru (Some dir)) =
        path_join e [dir, svc, ''azure-pipelines.yaml'']) \<and>
   yamlFilePath (installPipeline_config e svc pn rn ru None) = ''azure-pipelines.yaml'' \<and>
   (snd (getBuildApiClient e orgName token) = Inr api \<longrightarrow>
      map (\<lambda>(a, d, p). Option.bind (process d) yamlFilename)
        (definitionsSubmitted (fst (installPipeline e svc orgName token pn rn ru proj pd exitFn))) =
      [Some (yamlFilePath (installPipeline_config e svc pn rn ru pd))])"
proof (intro conjI impI)
  assume "dir \<noteq> []"
  then show "yamlFilePath (installPipeline_config e svc pn rn ru (Some dir)) =
        path_join e [dir, svc, ''azure-pipelines.yaml'']"
    by (simp add: installPipeline_config_def)
next
  show "yamlFilePath (installPipeline_config e svc pn rn ru None) = ''azure-pipelines.yaml''"
    by (simp add: installPipeline_config_def)
next
  let ?cfg = "installPipeline_config e svc pn rn ru pd"
  assume "snd (getBuildApiClient e orgName token) = Inr api"
  then obtain t1 where g: "getBuildApiClient e orgName token = (t1, Inr api)"
    by (cases "getBuildApiClient e orgName token") simp
  have "Option.bind (process (definitionForAzureRepoPipeline ?cfg)) yamlFilename =
          Some (yamlFilePath ?cfg)"
    by (cases "variables ?cfg") (simp_all add: definitionForAzureRepoPipeline_def Let_def)
  then show "map (\<lambda>(a, d, p). Option.bind (process d) yamlFilename)
        (definitionsSubmitted (fst (installPipeline e svc orgName token pn rn ru proj pd exitFn))) =
      [Some (yamlFilePath ?cfg)]"
    by (simp add: installPipeline_submits[OF g])
qed

text \<open>
  The service \<^verbatim>\<open>svc\<close> under the directory \<^verbatim>\<open>packages\<close>: the definition submitted names
  \<^verbatim>\<open>packages/svc/azure-pipelines.yaml\<close>.
\<close>

theorem yamlFilePath_computed_witness:
  "''packages'' \<noteq> [] \<and>
   snd (getBuildApiClient okEnv ''org'' ''pat'') = Inr 7 \<and>
   yamlFilePath (installPipeline_config okEnv ''svc'' ''svc-pipeline'' ''repo'' ''url''
     (Some ''packages'')) = ''packages/svc/azure-pipelines.yaml'' \<and>
   map (\<lambda>(a, d, p). Option.bind (process d) yamlFilename)
     (definitionsSubmitted (fst (installPipeline okEnv ''svc'' ''org'' ''pat'' ''svc-pipeline''
        ''repo'' ''url'' ''proj'' (Some ''packages'') process_exit))) =
     [Some ''packages/svc/azure-pipelines.yaml'']"
proof -
  have dir: "''packages'' \<noteq> []" by simp
  have join: "path_join okEnv [''packages'', ''svc'', ''azure-pipelines.yaml''] =
      ''packages/svc/azure-pipelines.yaml''"
    by (simp add: okEnv_def posix_join_packages)
  show ?thesis
    using dir join demo_client(1)
      yamlFilePath_computed[where e = okEnv and dir = "''packages''" and svc = "''svc''"
        and pn = "''svc-pipeline''" and rn = "''repo''" and ru = "''url''"
        and orgName = "''org''" and token = "''pat''" and api = 7 and proj = "''proj''"
        and pd = "Some ''packages''" and exitFn = process_exit]
    by simp
qed

section \<open>C7: the definition is forwarded as it was built\<close>

text \<open>
  C7. In every run of \<^verbatim>\<open>installPipeline\<close> that gets a client, the vendor's
  \<^verbatim>\<open>createDefinition\<close> is called exactly once, and the definition it receives is the one
  \<^verbatim>\<open>definitionForAzureRepoPipeline\<close> returned, with no field changed, added or removed;
  \<^verbatim>\<open>createPipelineForDefinition\<close> itself submits the definition it is given, whatever it is.
\<close>

theorem definition_forwarded_unchanged:
  assumes "snd (getBuildApiClient e orgName token) = Inr api"
  shows "definitionsSubmitted (fst (installPipeline e svc orgName token pn rn ru proj pd exitFn)) =
           [(api, definitionForAzureRepoPipeline (installPipeline_config e svc pn rn ru pd), proj)]
         \<and> definitionsSubmitted (fst (createPipelineForDefinition e api' proj' d)) =
           [(api', d, proj')]"
proof -
  obtain t1 where g: "getBuildApiClient e orgName token = (t1, Inr api)"
    using assms by (cases "getBuildApiClient e orgName token") simp
  show ?thesis
    by (simp add: installPipeline_submits[OF g] createPipelineForDefinition_trace(2))
qed

theorem definition_forwarded_unchanged_witness:
  "snd (getBuildApiClient okEnv ''org'' ''pat'') = Inr 7 \<and>
   definitionsSubmitted (fst (installPipeline okEnv ''svc'' ''org'' ''pat'' ''svc-pipeline''
     ''repo'' ''url'' ''proj'' None process_exit)) =
     [(7, definitionForAzureRepoPipeline demoConfig, ''proj'')]"
  using definition_forwarded_unchanged[OF demo_client(1), of "''svc''" "''svc-pipeline''"
      "''repo''" "''url''" "''proj''" None process_exit]
    demo_client(1)
  by (simp add: demoConfig_other)

section \<open>C2 and C8: the id of the created definition\<close>

text \<open>
  C2. In every run of \<^verbatim>\<open>installPipeline\<close> in which \<^verbatim>\<open>createPipelineForDefinition\<close> returns
  a definition with a defined id, the vendor's \<^verbatim>\<open>queueBuild\<close> is called exactly once,
  with a build whose definition id is that id; and \<^verbatim>\<open>queueBuild\<close> submits a build whose
  definition id is its \<^verbatim>\<open>definitionId\<close> argument, unchanged.
\<close>

theorem queueBuild_uses_returned_id:
  assumes "snd (getBuildApiClient e orgName token) = Inr api"
      and "snd (createPipelineForDefinition e api proj
             (definitionForAzureRepoPipeline (installPipeline_config e svc pn rn ru pd))) =
           Inr built"
      and "bd_id built = Some definitionId"
  shows "buildsQueued (fst (installPipeline e svc orgName token pn rn ru proj pd exitFn)) =
           [(api, \<lparr> build_definition = Some \<lparr> ref_id = Some definitionId \<rparr> \<rparr>, proj)]
         \<and> buildsQueued (fst (queueBuild e api' proj' definitionId')) =
           [(api', \<lparr> build_definition = Some \<lparr> ref_id = Some definitionId' \<rparr> \<rparr>, proj')]"
proof -
  let ?d = "definitionForAzureRepoPipeline (installPipeline_config e svc pn rn ru pd)"
  obtain t1 where g: "getBuildApiClient e orgName token = (t1, Inr api)"
    using assms(1) by (cases "getBuildApiClient e orgName token") simp
  obtain t3 where c: "createPipelineForDefinition e api proj ?d = (t3, Inr built)"
    using assms(2) by (cases "createPipelineForDefinition e api proj ?d") simp
  obtain t5 r5 where q: "queueBuild e api proj definitionId = (t5, r5)"
    by (cases "queueBuild e api proj definitionId")
  show ?thesis
    using installPipeline_queued(3)[OF g c assms(3) q] queueBuild_trace(3) by simp
qed

text \<open>The vendor answers with the id 0, and the build is queued for the id 0.\<close>

theorem queueBuild_uses_returned_id_witness:
  "snd (getBuildApiClient okEnv ''org'' ''pat'') = Inr 7 \<and>
   snd (createPipelineForDefinition okEnv 7 ''proj'' (definitionForAzureRepoPipeline demoConfig)) =
     Inr ((definitionForAzureRepoPipeline demoConfig)\<lparr>bd_id := Some 0\<rparr>) \<and>
   bd_id ((definitionForAzureRepoPipeline demoConfig)\<lparr>bd_id := Some 0\<rparr>) = Some 0 \<and>
   buildsQueued (fst (installPipeline okEnv ''svc'' ''org'' ''pat'' ''svc-pipeline'' ''repo''
     ''url'' ''proj'' None process_exit)) =
     [(7, \<lparr> build_definition = Some \<lparr> ref_id = Some 0 \<rparr> \<rparr>, ''proj'')]"
proof -
  have c: "snd (createPipelineForDefinition okEnv 7 ''proj''
         (definitionForAzureRepoPipeline
            (installPipeline_config okEnv ''svc'' ''svc-pipeline'' ''repo'' ''url'' None))) =
      Inr ((definitionForAzureRepoPipeline demoConfig)\<lparr>bd_id := Some 0\<rparr>)"
    by (simp add: demoConfig_other demo_created)
  have i: "bd_id ((definitionForAzureRepoPipeline demoConfig)\<lparr>bd_id := Some 0\<rparr>) = Some 0"
    by simp
  show ?thesis
    using queueBuild_uses_returned_id[OF demo_client(1) c i, of process_exit]
      demo_client(1) c i
    by (simp add: demoConfig_other)
qed

text \<open>
  C8. In every run of \<^verbatim>\<open>installPipeline\<close> in which \<^verbatim>\<open>createPipelineForDefinition\<close>
  succeeds and the definition it returns has no id, \<^verbatim>\<open>installPipeline\<close> throws an error
  that says so, the exit function is not called, and no build is queued.
\<close>

theorem missing_id_throws:
  assumes "snd (getBuildApiClient e orgName token) = Inr api"
      and "snd (createPipelineForDefinition e api proj
             (definitionForAzureRepoPipeline (installPipeline_config e svc pn rn ru pd))) =
           Inr built"
      and "bd_id built = None"
  shows "snd (installPipeline e svc orgName token pn rn ru proj pd exitFn) =
           Threw (JsError
             [Lit ''Invalid BuildDefinition created, parameter 'id' is missing from '',
              Json built])
         \<and> exitCalls (fst (installPipeline e svc orgName token pn rn ru proj pd exitFn)) = []
         \<and> buildsQueued (fst (installPipeline e svc orgName token pn rn ru proj pd exitFn)) = []"
proof -
  let ?d = "definitionForAzureRepoPipeline (installPipeline_config e svc pn rn ru pd)"
  obtain t1 where g: "getBuildApiClient e orgName token = (t1, Inr api)"
    using assms(1) by (cases "getBuildApiClient e orgName token") simp
  obtain t3 where c: "createPipelineForDefinition e api proj ?d = (t3, Inr built)"
    using assms(2) by (cases "createPipelineForDefinition e api proj ?d") simp
  show ?thesis
    using installPipeline_no_id(3-5)[OF g c assms(3)] by simp
qed

theorem missing_id_throws_witness:
  "snd (getBuildApiClient noIdEnv ''org'' ''pat'') = Inr 7 \<and>
   snd (createPipelineForDefinition noIdEnv 7 ''proj''
          (definitionForAzureRepoPipeline demoConfig)) =
     Inr (definitionForAzureRepoPipeline demoConfig) \<and>
   bd_id (definitionForAzureRepoPipeline demoConfig) = None \<and>
   snd (installPipeline noIdEnv ''svc'' ''org'' ''pat'' ''svc-pipeline'' ''repo'' ''url''
     ''proj'' None process_exit) =
     Threw (JsError
       [Lit ''Invalid BuildDefinition created, parameter 'id' is missing from '',
        Json (definitionForAzureRepoPipeline demoConfig)]) \<and>
   exitCalls (fst (installPipeline noIdEnv ''svc'' ''org'' ''pat'' ''svc-pipeline'' ''repo''
     ''url'' ''proj'' None process_exit)) = [] \<and>
   buildsQueued (fst (installPipeline noIdEnv ''svc'' ''org'' ''pat'' ''svc-pipeline'' ''repo''
     ''url'' ''proj'' None process_exit)) = []"
proof -
  have c: "snd (createPipelineForDefinition noIdEnv 7 ''proj''
         (definitionForAzureRepoPipeline
            (installPipeline_config noIdEnv ''svc'' ''svc-pipeline'' ''repo'' ''url'' None))) =
      Inr (definitionForAzureRepoPipeline demoConfig)"
    by (simp add: demoConfig_other demo_created)
  show ?thesis
    using missing_id_throws[OF demo_client(3) c demoDefinition_no_id, of process_exit]
      demo_client(3) c demoDefinition_no_id
    by (simp add: demoConfig_other)
qed


section \<open>C5 and C4: the order of the calls, and what a failure does\<close>

text \<open>
  C5. In every run of \<^verbatim>\<open>installPipeline\<close> the calls to the vendor are an initial part of
  the fixed sequence: authenticate (the token handler, the connection, the build client),
  create the definition, queue the build. So they happen in this order, one after the
  other, and none happens twice. A build is queued only in a run in which the client was
  obtained and \<^verbatim>\<open>createPipelineForDefinition\<close> returned a definition with an id.
\<close>

theorem vendor_calls_in_order:
  "prefix (vendorCalls (fst (installPipeline e svc orgName token pn rn ru proj pd exitFn)))
     [TokenHandler, NewWebApi, GetBuildApi, CreateDefinition, QueueBuild] \<and>
   distinct (vendorCalls (fst (installPipeline e svc orgName token pn rn ru proj pd exitFn))) \<and>
   (QueueBuild \<in> set (vendorCalls (fst (installPipeline e svc orgName token pn rn ru proj pd exitFn)))
      \<longrightarrow> (\<exists>api built definitionId.
             snd (getBuildApiClient e orgName token) = Inr api \<and>
             snd (createPipelineForDefinition e api proj
                    (definitionForAzureRepoPipeline (installPipeline_config e svc pn rn ru pd))) =
               Inr built \<and>
             bd_id built = Some definitionId))"
proof -
  let ?d = "definitionForAzureRepoPipeline (installPipeline_config e svc pn rn ru pd)"
  let ?calls = "vendorCalls (fst (installPipeline e svc orgName token pn rn ru proj pd exitFn))"
  let ?upToCreate = "[TokenHandler, NewWebApi, GetBuildApi, CreateDefinition]"
  let ?all = "[TokenHandler, NewWebApi, GetBuildApi, CreateDefinition, QueueBuild]"
  obtain t1 r1 where g: "getBuildApiClient e orgName token = (t1, r1)"
    by (cases "getBuildApiClient e orgName token")
  have cases: "(?calls = ?all \<and>
        (\<exists>api built definitionId.
             snd (getBuildApiClient e orgName token) = Inr api \<and>
             snd (createPipelineForDefinition e api proj ?d) = Inr built \<and>
             bd_id built = Some definitionId)) \<or>
      prefix ?calls ?upToCreate"
  proof (cases r1)
    case (Inl err)
    with g have "prefix ?calls [TokenHandler, NewWebApi, GetBuildApi]"
      using getBuildApiClient_failed(1)[of e orgName token t1 err]
      by (simp add: installPipeline_no_client(2))
    moreover have "prefix [TokenHandler, NewWebApi, GetBuildApi] ?upToCreate"
      by simp
    ultimately show ?thesis using prefix_order.trans by blast
  next
    case (Inr api)
    obtain t3 r3 where c: "createPipelineForDefinition e api proj ?d = (t3, r3)"
      by (cases "createPipelineForDefinition e api proj ?d")
    show ?thesis
    proof (cases r3)
      case (Inl err)
      with g c \<open>r1 = Inr api\<close> show ?thesis by (simp add: installPipeline_create_failed(1))
    next
      case built: (Inr built)
      show ?thesis
      proof (cases "bd_id built")
        case None
        with g c built \<open>r1 = Inr api\<close> show ?thesis by (simp add: installPipeline_no_id(1))
      next
        case (Some i)
        obtain t5 r5 where q: "queueBuild e api proj i = (t5, r5)"
          by (cases "queueBuild e api proj i")
        from g c built Some q \<open>r1 = Inr api\<close> show ?thesis
          by (simp add: installPipeline_queued(1))
      qed
    qed
  qed
  from cases show ?thesis
  proof
    assume "?calls = ?all \<and>
        (\<exists>api built definitionId.
             snd (getBuildApiClient e orgName token) = Inr api \<and>
             snd (createPipelineForDefinition e api proj ?d) = Inr built \<and>
             bd_id built = Some definitionId)"
    then show ?thesis by simp
  next
    assume p: "prefix ?calls ?upToCreate"
    have "prefix ?upToCreate ?all" by simp
    with p have "prefix ?calls ?all" using prefix_order.trans by blast
    moreover from p have "set ?calls \<subseteq> set ?upToCreate"
      by (rule set_mono_prefix)
    then have "QueueBuild \<notin> set ?calls" by auto
    moreover have "distinct ?calls"
    proof -
      from p obtain rest where "?upToCreate = ?calls @ rest"
        by (auto simp: prefix_def)
      moreover have "distinct ?upToCreate" by simp
      ultimately have "distinct (?calls @ rest)" by simp
      then show ?thesis by simp
    qed
    ultimately show ?thesis by simp
  qed
qed

text \<open>A run in which everything succeeds queues a build, after all the other calls.\<close>

theorem vendor_calls_in_order_witness:
  "QueueBuild \<in> set (vendorCalls (fst (installPipeline okEnv ''svc'' ''org'' ''pat''
     ''svc-pipeline'' ''repo'' ''url'' ''proj'' None process_exit))) \<and>
   prefix (vendorCalls (fst (installPipeline okEnv ''svc'' ''org'' ''pat''
     ''svc-pipeline'' ''repo'' ''url'' ''proj'' None process_exit)))
     [TokenHandler, NewWebApi, GetBuildApi, CreateDefinition, QueueBuild] \<and>
   (\<exists>api built definitionId.
      snd (getBuildApiClient okEnv ''org'' ''pat'') = Inr api \<and>
      snd (createPipelineForDefinition okEnv api ''proj''
             (definitionForAzureRepoPipeline demoConfig)) = Inr built \<and>
      bd_id built = Some definitionId)"
proof -
  have q: "QueueBuild \<in> set (vendorCalls (fst (installPipeline okEnv ''svc'' ''org'' ''pat''
     ''svc-pipeline'' ''repo'' ''url'' ''proj'' None process_exit)))"
    by (simp add: installPipeline_def getBuildApiClient_def initBuildApiClient_def
          createPipelineForDefinition_def queueBuild_def okEnv_def Let_def read_defs)
  show ?thesis
    using q vendor_calls_in_order[where e = okEnv and svc = "''svc''" and orgName = "''org''"
        and token = "''pat''" and pn = "''svc-pipeline''" and rn = "''repo''" and ru = "''url''"
        and proj = "''proj''" and pd = None and exitFn = process_exit]
    by (simp add: demoConfig_other)
qed

text \<open>
  C4. When getting the build client throws, or the vendor's \<^verbatim>\<open>createDefinition\<close> throws,
  or the vendor's \<^verbatim>\<open>queueBuild\<close> throws, the run of \<^verbatim>\<open>installPipeline\<close> logs that error at
  the error level, calls the exit function exactly once, with status 1, and ends as the
  exit function ends; with \<^verbatim>\<open>process.exit\<close>, which the command passes, the process exits
  with status 1. The calls to the vendor stop at the one that failed: none is made a
  second time and none that comes later is made.
\<close>

theorem vendor_failure_logs_and_exits:
  "(snd (getBuildApiClient e orgName token) = Inl err \<longrightarrow>
      Thrown err \<in> set (errorsLogged
        (fst (installPipeline e svc orgName token pn rn ru proj pd exitFn))) \<and>
      exitCalls (fst (installPipeline e svc orgName token pn rn ru proj pd exitFn)) = [1] \<and>
      snd (installPipeline e svc orgName token pn rn ru proj pd exitFn) = exitFn 1 \<and>
      snd (installPipeline e svc orgName token pn rn ru proj pd process_exit) = Exited 1 \<and>
      vendorCalls (fst (installPipeline e svc orgName token pn rn ru proj pd exitFn)) =
        vendorCalls (fst (getBuildApiClient e orgName token)) \<and>
      prefix (vendorCalls (fst (getBuildApiClient e orgName token)))
        [TokenHandler, NewWebApi, GetBuildApi]) \<and>
   (snd (getBuildApiClient e orgName token) = Inr api \<and>
    createDefinition e api
      (definitionForAzureRepoPipeline (installPipeline_config e svc pn rn ru pd)) proj =
      Inl err \<longrightarrow>
      Thrown err \<in> set (errorsLogged
        (fst (installPipeline e svc orgName token pn rn ru proj pd exitFn))) \<and>
      exitCalls (fst (installPipeline e svc orgName token pn rn ru proj pd exitFn)) = [1] \<and>
      snd (installPipeline e svc orgName token pn rn ru proj pd exitFn) = exitFn 1 \<and>
      snd (installPipeline e svc orgName token pn rn ru proj pd process_exit) = Exited 1 \<and>
      vendorCalls (fst (installPipeline e svc orgName token pn rn ru proj pd exitFn)) =
        [TokenHandler, NewWebApi, GetBuildApi, CreateDefinition]) \<and>
   (snd (getBuildApiClient e orgName token) = Inr api \<and>
    snd (createPipelineForDefinition e api proj
      (definitionForAzureRepoPipeline (installPipeline_config e svc pn rn ru pd))) = Inr built \<and>
    bd_id built = Some definitionId \<and>
    api_queueBuild e api \<lparr> build_definition = Some \<lparr> ref_id = Some definitionId \<rparr> \<rparr> proj =
      Inl err \<longrightarrow>
      Thrown err \<in> set (errorsLogged
        (fst (installPipeline e svc orgName token pn rn ru proj pd exitFn))) \<and>
      exitCalls (fst (installPipeline e svc orgName token pn rn ru proj pd exitFn)) = [1] \<and>
      snd (installPipeline e svc orgName token pn rn ru proj pd exitFn) = exitFn 1 \<and>
      snd (installPipeline e svc orgName token pn rn ru proj pd process_exit) = Exited 1 \<and>
      vendorCalls (fst (installPipeline e svc orgName token pn rn ru proj pd exitFn)) =
        [TokenHandler, NewWebApi, GetBuildApi, CreateDefinition, QueueBuild])"
proof (intro conjI impI; (elim conjE)?)
  let ?d = "definitionForAzureRepoPipeline (installPipeline_config e svc pn rn ru pd)"
  {
    assume "snd (getBuildApiClient e orgName token) = Inl err"
    then obtain t1 where g: "getBuildApiClient e orgName token = (t1, Inl err)"
      by (cases "getBuildApiClient e orgName token") simp
    show "Thrown err \<in> set (errorsLogged
        (fst (installPipeline e svc orgName token pn rn ru proj pd exitFn)))"
      by (simp add: installPipeline_no_client(6)[OF g])
    show "exitCalls (fst (installPipeline e svc orgName token pn rn ru proj pd exitFn)) = [1]"
      by (simp add: installPipeline_no_client(5)[OF g])
    show "snd (installPipeline e svc orgName token pn rn ru proj pd exitFn) = exitFn 1"
      by (simp add: installPipeline_no_client(1)[OF g])
    show "snd (installPipeline e svc orgName token pn rn ru proj pd process_exit) = Exited 1"
      by (simp add: installPipeline_no_client(1)[OF g] process_exit_def)
    show "vendorCalls (fst (installPipeline e svc orgName token pn rn ru proj pd exitFn)) =
        vendorCalls (fst (getBuildApiClient e orgName token))"
      by (simp add: installPipeline_no_client(2)[OF g] g)
    show "prefix (vendorCalls (fst (getBuildApiClient e orgName token)))
        [TokenHandler, NewWebApi, GetBuildApi]"
      using getBuildApiClient_failed(1)[OF g] by (simp add: g)
  }
  {
    assume "snd (getBuildApiClient e orgName token) = Inr api"
      and v: "createDefinition e api ?d proj = Inl err"
    then obtain t1 where g: "getBuildApiClient e orgName token = (t1, Inr api)"
      by (cases "getBuildApiClient e orgName token") simp
    from createPipelineForDefinition_failed[OF v] obtain t3
      where c: "createPipelineForDefinition e api proj ?d =
                  (t3, Inl (JsError [Lit ''Error creating definition'']))"
        and l: "errorsLogged t3 = [Thrown err]"
      by blast
    show "Thrown err \<in> set (errorsLogged
        (fst (installPipeline e svc orgName token pn rn ru proj pd exitFn)))"
      by (simp add: installPipeline_create_failed(5)[OF g c] l)
    show "exitCalls (fst (installPipeline e svc orgName token pn rn ru proj pd exitFn)) = [1]"
      by (rule installPipeline_create_failed(4)[OF g c])
    show "snd (installPipeline e svc orgName token pn rn ru proj pd exitFn) = exitFn 1"
      by (rule installPipeline_create_failed(6)[OF g c])
    show "snd (installPipeline e svc orgName token pn rn ru proj pd process_exit) = Exited 1"
      by (simp add: installPipeline_create_failed(6)[OF g c] process_exit_def)
    show "vendorCalls (fst (installPipeline e svc orgName token pn rn ru proj pd exitFn)) =
        [TokenHandler, NewWebApi, GetBuildApi, CreateDefinition]"
      by (rule installPipeline_create_failed(1)[OF g c])
  }
  {
    assume "snd (getBuildApiClient e orgName token) = Inr api"
      and "snd (createPipelineForDefinition e api proj ?d) = Inr built"
      and i: "bd_id built = Some definitionId"
      and v: "api_queueBuild e api
                \<lparr> build_definition = Some \<lparr> ref_id = Some definitionId \<rparr> \<rparr> proj = Inl err"
    then obtain t1 t3 where g: "getBuildApiClient e orgName token = (t1, Inr api)"
      and c: "createPipelineForDefinition e api proj ?d = (t3, Inr built)"
      by (cases "getBuildApiClient e orgName token",
          cases "createPipelineForDefinition e api proj ?d") simp
    from queueBuild_failed[OF v] obtain t5
      where q: "queueBuild e api proj definitionId =
                  (t5, Inl (JsError [Lit ''Error queueing build'']))"
        and l: "errorsLogged t5 = [Thrown err]"
      by blast
    show "Thrown err \<in> set (errorsLogged
        (fst (installPipeline e svc orgName token pn rn ru proj pd exitFn)))"
      by (simp add: installPipeline_queued(5)[OF g c i q] l)
    show "exitCalls (fst (installPipeline e svc orgName token pn rn ru proj pd exitFn)) = [1]"
      by (simp add: installPipeline_queued(4)[OF g c i q])
    show "snd (installPipeline e svc orgName token pn rn ru proj pd exitFn) = exitFn 1"
      by (simp add: installPipeline_queued(6)[OF g c i q])
    show "snd (installPipeline e svc orgName token pn rn ru proj pd process_exit) = Exited 1"
      by (simp add: installPipeline_queued(6)[OF g c i q] process_exit_def)
    show "vendorCalls (fst (installPipeline e svc orgName token pn rn ru proj pd exitFn)) =
        [TokenHandler, NewWebApi, GetBuildApi, CreateDefinition, QueueBuild]"
      by (rule installPipeline_queued(1)[OF g c i q])
  }
qed

text \<open>
  Three runs, each with one call that throws: the build client is refused, the definition
  is rejected, the build cannot be queued.
\<close>

theorem vendor_failure_logs_and_exits_witness:
  "(snd (getBuildApiClient noClientEnv ''org'' ''pat'') = Inl (failure ''unauthorized'') \<and>
    snd (installPipeline noClientEnv ''svc'' ''org'' ''pat'' ''svc-pipeline'' ''repo'' ''url''
      ''proj'' None process_exit) = Exited 1 \<and>
    exitCalls (fst (installPipeline noClientEnv ''svc'' ''org'' ''pat'' ''svc-pipeline'' ''repo''
      ''url'' ''proj'' None process_exit)) = [1]) \<and>
   (createDefinition noDefinitionEnv 7 (definitionForAzureRepoPipeline demoConfig) ''proj'' =
      Inl (failure ''rejected'') \<and>
    snd (installPipeline noDefinitionEnv ''svc'' ''org'' ''pat'' ''svc-pipeline'' ''repo'' ''url''
      ''proj'' None process_exit) = Exited 1 \<and>
    vendorCalls (fst (installPipeline noDefinitionEnv ''svc'' ''org'' ''pat'' ''svc-pipeline''
      ''repo'' ''url'' ''proj'' None process_exit)) =
      [TokenHandler, NewWebApi, GetBuildApi, CreateDefinition]) \<and>
   (api_queueBuild noQueueEnv 7 \<lparr> build_definition = Some \<lparr> ref_id = Some 0 \<rparr> \<rparr> ''proj'' =
      Inl (failure ''no agents'') \<and>
    snd (installPipeline noQueueEnv ''svc'' ''org'' ''pat'' ''svc-pipeline'' ''repo'' ''url''
      ''proj'' None process_exit) = Exited 1 \<and>
    vendorCalls (fst (installPipeline noQueueEnv ''svc'' ''org'' ''pat'' ''svc-pipeline''
      ''repo'' ''url'' ''proj'' None process_exit)) =
      [TokenHandler, NewWebApi, GetBuildApi, CreateDefinition, QueueBuild])"
proof -
  have d: "createDefinition noDefinitionEnv 7 (definitionForAzureRepoPipeline demoConfig)
      ''proj'' = Inl (failure ''rejected'')"
    by (simp add: noDefinitionEnv_def okEnv_def)
  have q: "api_queueBuild noQueueEnv 7 \<lparr> build_definition = Some \<lparr> ref_id = Some 0 \<rparr> \<rparr>
      ''proj'' = Inl (failure ''no agents'')"
    by (simp add: noQueueEnv_def okEnv_def)
  have c: "snd (createPipelineForDefinition noQueueEnv 7 ''proj''
         (definitionForAzureRepoPipeline demoConfig)) =
      Inr ((definitionForAzureRepoPipeline demoConfig)\<lparr>bd_id := Some 0\<rparr>)"
    by (rule demo_created(2))
  have i: "bd_id ((definitionForAzureRepoPipeline demoConfig)\<lparr>bd_id := Some 0\<rparr>) = Some 0"
    by simp
  show ?thesis
    using demo_client(2,4,5) d q c i
      vendor_failure_logs_and_exits[where e = noClientEnv and orgName = "''org''"
        and token = "''pat''" and err = "failure ''unauthorized''" and svc = "''svc''"
        and pn = "''svc-pipeline''" and rn = "''repo''" and ru = "''url''" and proj = "''proj''"
        and pd = None and exitFn = process_exit]
      vendor_failure_logs_and_exits[where e = noDefinitionEnv and orgName = "''org''"
        and token = "''pat''" and err = "failure ''rejected''" and svc = "''svc''"
        and pn = "''svc-pipeline''" and rn = "''repo''" and ru = "''url''" and proj = "''proj''"
        and pd = None and exitFn = process_exit and api = 7]
      vendor_failure_logs_and_exits[where e = noQueueEnv and orgName = "''org''"
        and token = "''pat''" and err = "failure ''no agents''" and svc = "''svc''"
        and pn = "''svc-pipeline''" and rn = "''repo''" and ru = "''url''" and proj = "''proj''"
        and pd = None and exitFn = process_exit and api = 7
        and built = "(definitionForAzureRepoPipeline demoConfig)\<lparr>bd_id := Some 0\<rparr>"
        and definitionId = 0]
    by (simp add: demoConfig_other process_exit_def)
qed

section \<open>C3 and C9: the options of the command\<close>

text \<open>
  C3. When the options have been resolved and one of the six required values (pipeline
  name, personal access token, organisation name, repository name, repository URL, DevOps
  project) is not of type string, the command logs the validation error at the error
  level, calls \<^verbatim>\<open>process.exit\<close> with status 1 and the process exits with that status;
  no call to the vendor has been made.
\<close>

theorem non_string_option_exits:
  assumes "getOriginUrl e = Inr gitOriginUrl"
      and "Config e = Inr cfg"
      and "resolveOptions e cfg gitOriginUrl serviceName options = Inr r"
      and "typeof (r_pipelineName r) \<noteq> ''string'' \<or>
           typeof (r_personalAccessToken r) \<noteq> ''string'' \<or>
           typeof (r_orgName r) \<noteq> ''string'' \<or>
           typeof (r_repoName r) \<noteq> ''string'' \<or>
           typeof (r_repoUrl r) \<noteq> ''string'' \<or>
           typeof (r_devopsProject r) \<noteq> ''string''"
  shows "snd (createPipelineAction e serviceName options) = Exited 1 \<and>
         vendorCalls (fst (createPipelineAction e serviceName options)) = [] \<and>
         exitCalls (fst (createPipelineAction e serviceName options)) = [1] \<and>
         (\<exists>err. validateInputs r = Inl err \<and>
            errorsLogged (fst (createPipelineAction e serviceName options)) =
              [Message [Lit ''Error occurred validating inputs for '', Val (JStr serviceName)],
               Thrown err])"
proof -
  from validateInputs_rejects[OF assms(4)] obtain err where v: "validateInputs r = Inl err" ..
  have run: "createPipelineAction e serviceName options =
      (debugResolved r @
         [Log Err (Message [Lit ''Error occurred validating inputs for '',
                            Val (JStr serviceName)]),
          Log Err (Thrown err), CallExit 1], process_exit 1)"
    using assms(1-3) v by (simp add: createPipelineAction_def)
  show ?thesis
    unfolding run using v
    by (simp add: read_append read_defs debugResolved_trace process_exit_def)
qed

text \<open>No token on the command line and none in the configuration: the value is undefined.\<close>

theorem non_string_option_exits_witness:
  "getOriginUrl okEnv = Inr ''https://dev.azure.com/org/proj/_git/repo'' \<and>
   Config okEnv = Inr \<lparr> azure_devops = None \<rparr> \<and>
   resolveOptions okEnv \<lparr> azure_devops = None \<rparr> ''https://dev.azure.com/org/proj/_git/repo''
     ''svc'' tokenlessOptions = Inr tokenlessResolved \<and>
   typeof (r_personalAccessToken tokenlessResolved) \<noteq> ''string'' \<and>
   snd (createPipelineAction okEnv ''svc'' tokenlessOptions) = Exited 1 \<and>
   vendorCalls (fst (createPipelineAction okEnv ''svc'' tokenlessOptions)) = [] \<and>
   exitCalls (fst (createPipelineAction okEnv ''svc'' tokenlessOptions)) = [1]"
proof -
  have u: "getOriginUrl okEnv = Inr ''https://dev.azure.com/org/proj/_git/repo''"
    by (simp add: okEnv_def)
  have c: "Config okEnv = Inr \<lparr> azure_devops = None \<rparr>"
    by (simp add: okEnv_def)
  have t: "typeof (r_personalAccessToken tokenlessResolved) \<noteq> ''string''"
    by (simp add: tokenlessResolved_def)
  have t': "typeof (r_pipelineName tokenlessResolved) \<noteq> ''string'' \<or>
           typeof (r_personalAccessToken tokenlessResolved) \<noteq> ''string'' \<or>
           typeof (r_orgName tokenlessResolved) \<noteq> ''string'' \<or>
           typeof (r_repoName tokenlessResolved) \<noteq> ''string'' \<or>
           typeof (r_repoUrl tokenlessResolved) \<noteq> ''string'' \<or>
           typeof (r_devopsProject tokenlessResolved) \<noteq> ''string''"
    using t by simp
  show ?thesis
    using non_string_option_exits[OF u c demo_resolved(2) t'] u c demo_resolved(2) t by simp
qed

text \<open>
  C9. When \<^verbatim>\<open>--pipeline-name\<close> is not given, the pipeline name the command resolves is
  the service name followed by \<^verbatim>\<open>-pipeline\<close>, and this is the pipeline name that passes
  the validation.
\<close>

theorem pipelineName_default:
  assumes "opt_pipelineName options = JUndefined"
      and "resolveOptions e cfg gitOriginUrl serviceName options = Inr r"
  shows "r_pipelineName r = JStr (serviceName @ ''-pipeline'') \<and>
         (\<forall>v. validateInputs r = Inr v \<longrightarrow> v_pipelineName v = serviceName @ ''-pipeline'')"
proof -
  have n: "r_pipelineName r = JStr (serviceName @ ''-pipeline'')"
    using assms by (auto simp: resolveOptions_def Let_def split: sum.splits if_splits)
  then show ?thesis
    by (auto simp: validateInputs_def split: sum.splits)
qed

theorem pipelineName_default_witness:
  "opt_pipelineName fullOptions = JUndefined \<and>
   resolveOptions okEnv \<lparr> azure_devops = None \<rparr> ''https://dev.azure.com/org/proj/_git/repo''
     ''svc'' fullOptions = Inr fullResolved \<and>
   validateInputs fullResolved = Inr fullValidated \<and>
   r_pipelineName fullResolved = JStr ''svc-pipeline'' \<and>
   v_pipelineName fullValidated = ''svc-pipeline''"
proof -
  have u: "opt_pipelineName fullOptions = JUndefined"
    by (simp add: fullOptions_def)
  have v: "validateInputs fullResolved = Inr fullValidated"
    by (simp add: validateInputs_def fullResolved_def fullValidated_def)
  show ?thesis
    using pipelineName_default[OF u demo_resolved(1)] u demo_resolved(1) v by simp
qed

end
